theory Spec2Isabelle
  imports Main "HOL-Library.Word"
begin

unbundle bit_operations_syntax

section \<open>Data model of \<^verbatim>\<open>armv7.c\<close>\<close>

type_synonym u32 = "32 word"

text \<open>
  The enumerations \<^verbatim>\<open>armv7_instr_t\<close> and \<^verbatim>\<open>armv7_enctype_t\<close> are declared in
  \<^verbatim>\<open>armv7-tbl.h\<close>. Every enumerator that \<^verbatim>\<open>armv7.c\<close> names is a constructor here;
  the remaining enumerators of the header are \<open>I_Other n\<close> and \<open>T_Other n\<close>.
\<close>

datatype armv7_instr_t =
    I_INVLD | I_ADD | I_SUB | I_ADR | I_SVC
  | I_BKPT | I_BX | I_BXJ | I_BLX | I_MSR
  | I_QSUB | I_SMLAW | I_SMULW
  | I_MOV | I_MVN | I_LSL | I_ROR | I_RRX | I_NOP
  | I_Other nat

datatype armv7_enctype_t =
    T_INVLD | T_ARITH_SHIFT | T_ARITH_IMM | T_BRNCHSC | T_BRNCHMISC
  | T_MOV_IMM | T_CMP_OP | T_CMP_IMM | T_OPLESS | T_DST_SRC
  | T_Other nat

text \<open>
  The members of \<^verbatim>\<open>darm_t\<close> that \<^verbatim>\<open>armv7.c\<close> reads or writes. The member \<^verbatim>\<open>w\<close> is
  named \<open>d_w\<close>, \<^verbatim>\<open>type\<close> is \<open>shtype\<close> and \<^verbatim>\<open>add\<close> is \<open>d_add\<close>; the other names are
  the source's.
\<close>

record darm_t =
  d_w :: u32
  instr :: armv7_instr_t
  instr_type :: armv7_enctype_t
  cond :: u32
  S :: u32
  d_add :: u32
  Rd :: u32
  Rn :: u32
  Rm :: u32
  Rs :: u32
  shtype :: u32
  shift_is_reg :: u32
  shift :: u32
  imm :: u32

section \<open>Condition registry\<close>

record condition_code =
  mnemonic_extension :: string
  meaning_integer :: string
  meaning_fp :: string

definition g_condition_codes :: "condition_code list" where
  "g_condition_codes = [
    \<lparr>mnemonic_extension = ''EQ'', meaning_integer = ''Equal'', meaning_fp = ''Equal''\<rparr>,
    \<lparr>mnemonic_extension = ''NE'', meaning_integer = ''Not equal'',
      meaning_fp = ''Not equal, or unordered''\<rparr>,
    \<lparr>mnemonic_extension = ''CS'', meaning_integer = ''Carry Set'',
      meaning_fp = ''Greater than, equal, or unordered''\<rparr>,
    \<lparr>mnemonic_extension = ''CC'', meaning_integer = ''Carry Clear'',
      meaning_fp = ''Less than''\<rparr>,
    \<lparr>mnemonic_extension = ''MI'', meaning_integer = ''Minus, negative'',
      meaning_fp = ''Less than''\<rparr>,
    \<lparr>mnemonic_extension = ''PL'', meaning_integer = ''Plus, positive or zero'',
      meaning_fp = ''Greater than, equal, or unordered''\<rparr>,
    \<lparr>mnemonic_extension = ''VS'', meaning_integer = ''Overflow'',
      meaning_fp = ''Unordered''\<rparr>,
    \<lparr>mnemonic_extension = ''VC'', meaning_integer = ''No overflow'',
      meaning_fp = ''Not unordered''\<rparr>,
    \<lparr>mnemonic_extension = ''HI'', meaning_integer = ''Unsigned higher'',
      meaning_fp = ''Greater than, unordered''\<rparr>,
    \<lparr>mnemonic_extension = ''LS'', meaning_integer = ''Unsigned lower or same'',
      meaning_fp = ''Greater than, or unordered''\<rparr>,
    \<lparr>mnemonic_extension = ''GE'', meaning_integer = ''Signed greater than or equal'',
      meaning_fp = ''Greater than, or unordered''\<rparr>,
    \<lparr>mnemonic_extension = ''LT'', meaning_integer = ''Signed less than'',
      meaning_fp = ''Less than, or unordered''\<rparr>,
    \<lparr>mnemonic_extension = ''GT'', meaning_integer = ''Signed greater than'',
      meaning_fp = ''Greater than''\<rparr>,
    \<lparr>mnemonic_extension = ''LE'', meaning_integer = ''Signed less than or equal'',
      meaning_fp = ''Less than, equal, or unordered''\<rparr>,
    \<lparr>mnemonic_extension = ''AL'', meaning_integer = ''Always (unconditional)'',
      meaning_fp = ''Always (unconditional)''\<rparr>,
    \<lparr>mnemonic_extension = ''HS'', meaning_integer = ''Carry Set'',
      meaning_fp = ''Greater than, equal, or unordered''\<rparr>,
    \<lparr>mnemonic_extension = ''LO'', meaning_integer = ''Carry Clear'',
      meaning_fp = ''Less than''\<rparr>]"

text \<open>
  \<^verbatim>\<open>armv7_condition_info\<close>. The two out-pointers are modelled by a flag each (the pointer
  is not \<^verbatim>\<open>NULL\<close>) and by the string stored through it (\<open>None\<close>: nothing is stored).
  The returned \<^verbatim>\<open>const char *\<close> is the first component; a \<^verbatim>\<open>NULL\<close> return is \<open>None\<close>,
  and nothing has been stored by then.
\<close>

definition armv7_condition_info ::
  "int \<Rightarrow> bool \<Rightarrow> bool \<Rightarrow> int \<Rightarrow> (string \<times> string option \<times> string option) option" where
  "armv7_condition_info condition_flag want_integer want_fp omit_always_mnemonic =
     (if condition_flag < 0 \<or> condition_flag > 14 then None
      else
        let e = g_condition_codes ! nat condition_flag;
            mi = (if want_integer then Some (meaning_integer e) else None);
            mf = (if want_fp then Some (meaning_fp e) else None)
        in if omit_always_mnemonic \<noteq> 0 \<and> condition_flag = 14 then Some ('''', mi, mf)
           else Some (mnemonic_extension e, mi, mf))"

text \<open>
  The \<^verbatim>\<open>for\<close> loop of \<^verbatim>\<open>armv7_condition_index\<close> over the remaining entries of the
  table, \<open>i\<close> being the index of the first of them; \<^verbatim>\<open>strcmp\<close> returning 0 is equality of
  the strings.
\<close>

fun condition_index_loop :: "string \<Rightarrow> condition_code list \<Rightarrow> nat \<Rightarrow> nat option" where
  "condition_index_loop s [] i = None"
| "condition_index_loop s (c # cs) i =
     (if s = mnemonic_extension c then Some i else condition_index_loop s cs (Suc i))"

text \<open>
  \<^verbatim>\<open>armv7_condition_index\<close>: the argument \<open>None\<close> is the \<^verbatim>\<open>NULL\<close> pointer, the result
  \<open>None\<close> is the return value \<^verbatim>\<open>-1\<close>.
\<close>

definition armv7_condition_index :: "string option \<Rightarrow> nat option" where
  "armv7_condition_index condition_code =
     (case condition_code of
        None \<Rightarrow> None
      | Some s \<Rightarrow> if s = [] then Some 14 else condition_index_loop s g_condition_codes 0)"

section \<open>Shifter-operand decoder\<close>

definition shift_types :: "string list" where
  "shift_types = [''LSL'', ''LSR'', ''ASR'', ''ROR'']"

text \<open>
  \<^verbatim>\<open>armv7_shift_decode\<close> stores a label (\<open>None\<close> is \<^verbatim>\<open>NULL\<close>) and an amount. A record
  whose \<^verbatim>\<open>type\<close> member exceeds 3 makes the C code read past the end of
  \<^verbatim>\<open>shift_types\<close>; that undefined read is the result \<open>None\<close>.
\<close>

definition armv7_shift_decode :: "darm_t \<Rightarrow> (string option \<times> u32) option" where
  "armv7_shift_decode d =
     (if shtype d = 0 \<and> Rs d = 0 then Some (None, 0)
      else if shtype d = 3 \<and> Rs d = 0 then Some (Some ''RRX'', 0)
      else if unat (shtype d) < length shift_types then
        Some (Some (shift_types ! unat (shtype d)),
              if (shtype d = 1 \<or> shtype d = 2) \<and> Rs d = 0 then 32 else Rs d)
      else None)"

section \<open>Tables and constants of the absent headers\<close>

text \<open>
  \<^verbatim>\<open>armv7.c\<close> reads five lookup tables of \<^verbatim>\<open>armv7-tbl.h\<close> and the register index
  \<^verbatim>\<open>PC\<close> of \<^verbatim>\<open>darm.h\<close>; neither header is part of the sources at hand, so they are
  parameters of the decoder. A table is a function of its index. \<open>instr_zero\<close> and
  \<open>enctype_zero\<close> are the enumerators whose value is 0, which is what \<^verbatim>\<open>memset\<close> leaves
  in the two enumeration members.
\<close>

record armv7_tbl =
  armv7_instr_labels :: "u32 \<Rightarrow> armv7_instr_t"
  armv7_instr_types :: "u32 \<Rightarrow> armv7_enctype_t"
  type4_instr_lookup :: "u32 \<Rightarrow> armv7_instr_t"
  type_opless_instr_lookup :: "u32 \<Rightarrow> armv7_instr_t"
  type_shift_instr_lookup :: "u32 \<Rightarrow> armv7_instr_t"
  PC :: u32
  instr_zero :: armv7_instr_t
  enctype_zero :: armv7_enctype_t

definition BITMSK_12 :: u32 where
  "BITMSK_12 = push_bit 12 1 - 1"

definition BITMSK_24 :: u32 where
  "BITMSK_24 = push_bit 24 1 - 1"

section \<open>Field extractors\<close>

text \<open>
  One definition per \<^verbatim>\<open>case\<close> of the \<^verbatim>\<open>switch\<close> in \<^verbatim>\<open>armv7_disas_cond\<close>. Each takes
  the record as it is when the \<^verbatim>\<open>case\<close> is entered and returns the value returned by
  the C function together with the record as the C function leaves it.
\<close>

definition case_T_ARITH_SHIFT :: "darm_t \<Rightarrow> u32 \<Rightarrow> int \<times> darm_t" where
  "case_T_ARITH_SHIFT d w =
     (let d = d\<lparr>S := drop_bit 20 w AND 1\<rparr>;
          d = d\<lparr>Rd := drop_bit 12 w AND 15\<rparr>;
          d = d\<lparr>Rn := drop_bit 16 w AND 15\<rparr>;
          d = d\<lparr>Rm := w AND 15\<rparr>;
          d = d\<lparr>shtype := drop_bit 5 w AND 3\<rparr>;
          d = d\<lparr>shift_is_reg := drop_bit 4 w AND 1\<rparr>;
          d = (if shift_is_reg d \<noteq> 0 then d\<lparr>Rs := drop_bit 8 w AND 15\<rparr>
               else d\<lparr>shift := drop_bit 7 w AND 31\<rparr>)
      in (0, d))"

definition case_T_ARITH_IMM :: "armv7_tbl \<Rightarrow> darm_t \<Rightarrow> u32 \<Rightarrow> int \<times> darm_t" where
  "case_T_ARITH_IMM tbl d w =
     (let d = d\<lparr>S := drop_bit 20 w AND 1\<rparr>;
          d = d\<lparr>Rd := drop_bit 12 w AND 15\<rparr>;
          d = d\<lparr>Rn := drop_bit 16 w AND 15\<rparr>;
          d = d\<lparr>imm := w AND BITMSK_12\<rparr>;
          d = (if (instr d = I_ADD \<or> instr d = I_SUB) \<and> S d = 0 \<and> Rn d = PC tbl
               then d\<lparr>instr := I_ADR, Rn := 0, d_add := drop_bit 23 w AND 1\<rparr>
               else d)
      in (0, d))"

definition case_T_BRNCHSC :: "darm_t \<Rightarrow> u32 \<Rightarrow> int \<times> darm_t" where
  "case_T_BRNCHSC d w =
     (let d = d\<lparr>imm := w AND BITMSK_24\<rparr>;
          d = (if instr d \<noteq> I_SVC then
                 if drop_bit 23 (imm d) AND 1 \<noteq> 0
                 then d\<lparr>imm := push_bit 2 (imm d OR 0xff000000)\<rparr>
                 else d\<lparr>imm := push_bit 2 (imm d)\<rparr>
               else d)
      in (0, d))"

definition case_T_BRNCHMISC :: "armv7_tbl \<Rightarrow> darm_t \<Rightarrow> u32 \<Rightarrow> int \<times> darm_t" where
  "case_T_BRNCHMISC tbl d w =
     (let d = d\<lparr>instr := type4_instr_lookup tbl (drop_bit 4 w AND 15)\<rparr>
      in case instr d of
           I_BKPT \<Rightarrow> (0, d\<lparr>imm := push_bit 4 (drop_bit 8 w AND BITMSK_12) + (w AND 15)\<rparr>)
         | I_BX \<Rightarrow> (0, d\<lparr>Rm := w AND 15\<rparr>)
         | I_BXJ \<Rightarrow> (0, d\<lparr>Rm := w AND 15\<rparr>)
         | I_BLX \<Rightarrow> (0, d\<lparr>Rm := w AND 15\<rparr>)
         | I_MSR \<Rightarrow> (0, d\<lparr>Rn := w AND 15, imm := drop_bit 18 w AND 3\<rparr>)
         | _ \<Rightarrow> (- 1, d))"

definition case_T_MOV_IMM :: "darm_t \<Rightarrow> u32 \<Rightarrow> int \<times> darm_t" where
  "case_T_MOV_IMM d w =
     (let d = d\<lparr>Rd := drop_bit 12 w AND 15\<rparr>;
          d = d\<lparr>imm := w AND BITMSK_12\<rparr>;
          d = (if instr d = I_MOV \<or> instr d = I_MVN then d\<lparr>S := drop_bit 20 w AND 1\<rparr>
               else d\<lparr>imm := imm d OR push_bit 12 (drop_bit 16 w AND 15)\<rparr>)
      in (0, d))"

definition case_T_CMP_OP :: "darm_t \<Rightarrow> u32 \<Rightarrow> int \<times> darm_t" where
  "case_T_CMP_OP d w =
     (let d = d\<lparr>Rn := drop_bit 16 w AND 15\<rparr>;
          d = d\<lparr>Rm := w AND 15\<rparr>;
          d = d\<lparr>shtype := drop_bit 5 w AND 3\<rparr>;
          d = d\<lparr>shift_is_reg := drop_bit 4 w AND 1\<rparr>;
          d = (if shift_is_reg d \<noteq> 0 then d\<lparr>Rs := drop_bit 8 w AND 15\<rparr>
               else d\<lparr>shift := drop_bit 7 w AND 31\<rparr>)
      in (0, d))"

definition case_T_CMP_IMM :: "darm_t \<Rightarrow> u32 \<Rightarrow> int \<times> darm_t" where
  "case_T_CMP_IMM d w =
     (let d = d\<lparr>Rn := drop_bit 16 w AND 15\<rparr>;
          d = d\<lparr>imm := w AND BITMSK_12\<rparr>
      in (0, d))"

definition case_T_OPLESS :: "armv7_tbl \<Rightarrow> darm_t \<Rightarrow> u32 \<Rightarrow> int \<times> darm_t" where
  "case_T_OPLESS tbl d w =
     (let d = d\<lparr>instr := type_opless_instr_lookup tbl (w AND 7)\<rparr>
      in (if instr d = I_INVLD then - 1 else 0, d))"

definition case_T_DST_SRC :: "armv7_tbl \<Rightarrow> darm_t \<Rightarrow> u32 \<Rightarrow> int \<times> darm_t" where
  "case_T_DST_SRC tbl d w =
     (let d = d\<lparr>instr := type_shift_instr_lookup tbl (drop_bit 4 w AND 15)\<rparr>
      in if instr d \<noteq> I_INVLD then
           let d = d\<lparr>S := drop_bit 20 w AND 1\<rparr>;
               d = d\<lparr>Rd := drop_bit 12 w AND 15\<rparr>;
               d = d\<lparr>shtype := drop_bit 5 w AND 3\<rparr>;
               d = (if drop_bit 4 w AND 1 \<noteq> 0
                    then d\<lparr>Rm := drop_bit 8 w AND 15, Rn := w AND 15\<rparr>
                    else
                      let d = d\<lparr>Rm := w AND 15\<rparr>;
                          d = d\<lparr>shift := drop_bit 7 w AND 31\<rparr>
                      in if instr d = I_LSL \<and> shtype d = 0 \<and> shift d = 0 then
                           let d = d\<lparr>instr := I_MOV\<rparr>
                           in if Rd d = Rm d then d\<lparr>instr := I_NOP\<rparr> else d
                         else if instr d = I_ROR \<and> shtype d = 3 \<and> shift d = 0
                         then d\<lparr>instr := I_RRX\<rparr>
                         else d)
           in (0, d)
         else (- 1, d))"

section \<open>Encoding-class dispatcher and decode orchestrator\<close>

definition armv7_disas_cond :: "armv7_tbl \<Rightarrow> darm_t \<Rightarrow> u32 \<Rightarrow> int \<times> darm_t" where
  "armv7_disas_cond tbl d w =
     (let d = d\<lparr>instr := armv7_instr_labels tbl (drop_bit 20 w AND 0xff)\<rparr>;
          d = d\<lparr>instr_type := armv7_instr_types tbl (drop_bit 20 w AND 0xff)\<rparr>
      in case instr_type d of
           T_INVLD \<Rightarrow> (- 1, d)
         | T_ARITH_SHIFT \<Rightarrow> case_T_ARITH_SHIFT d w
         | T_ARITH_IMM \<Rightarrow> case_T_ARITH_IMM tbl d w
         | T_BRNCHSC \<Rightarrow> case_T_BRNCHSC d w
         | T_BRNCHMISC \<Rightarrow> case_T_BRNCHMISC tbl d w
         | T_MOV_IMM \<Rightarrow> case_T_MOV_IMM d w
         | T_CMP_OP \<Rightarrow> case_T_CMP_OP d w
         | T_CMP_IMM \<Rightarrow> case_T_CMP_IMM d w
         | T_OPLESS \<Rightarrow> case_T_OPLESS tbl d w
         | T_DST_SRC \<Rightarrow> case_T_DST_SRC tbl d w
         | T_Other n \<Rightarrow> (- 1, d))"

text \<open>The record after \<^verbatim>\<open>memset(d, 0, sizeof(darm_t))\<close>.\<close>

definition darm_zero :: "armv7_tbl \<Rightarrow> darm_t" where
  "darm_zero tbl =
     \<lparr>d_w = 0, instr = instr_zero tbl, instr_type = enctype_zero tbl, cond = 0, S = 0,
      d_add = 0, Rd = 0, Rn = 0, Rm = 0, Rs = 0, shtype = 0, shift_is_reg = 0, shift = 0,
      imm = 0\<rparr>"

text \<open>
  \<^verbatim>\<open>armv7_disassemble\<close>: the first argument after the tables is the caller's record
  before the call, the result is the returned \<^verbatim>\<open>int\<close> and the caller's record after
  the call.
\<close>

definition armv7_disassemble :: "armv7_tbl \<Rightarrow> darm_t \<Rightarrow> u32 \<Rightarrow> int \<times> darm_t" where
  "armv7_disassemble tbl d w =
     (let ret = - 1;
          d = darm_zero tbl;
          d = d\<lparr>cond := drop_bit 28 w AND 15\<rparr>;
          d = d\<lparr>d_w := w\<rparr>;
          (ret, d) = (if cond d = 15 then (ret, d) else armv7_disas_cond tbl d w)
      in if ret < 0 then (ret, d) else (0, d))"

section \<open>An instance of the tables\<close>

text \<open>
  A small instance of the tables, following the encoding of a few instructions in the ARM
  architecture manual, with \<^verbatim>\<open>PC\<close> the register 15. \<open>I_Other 0\<close> stands for the branch,
  \<open>I_Other 1\<close> and \<open>I_Other 2\<close> for the logical and the arithmetic right shift.
\<close>

definition example_tbl :: armv7_tbl where
  "example_tbl =
     \<lparr>armv7_instr_labels = (\<lambda>i.
        if i = 0x28 \<or> i = 0x29 then I_ADD
        else if i = 0x24 \<or> i = 0x25 then I_SUB
        else if i = 0x1a \<or> i = 0x1b then I_MOV
        else if 0xa0 \<le> i \<and> i \<le> 0xaf then I_Other 0
        else if 0xf0 \<le> i then I_SVC
        else if i = 0x32 then I_NOP
        else I_INVLD),
      armv7_instr_types = (\<lambda>i.
        if i = 0x28 \<or> i = 0x29 \<or> i = 0x24 \<or> i = 0x25 then T_ARITH_IMM
        else if i = 0x1a \<or> i = 0x1b then T_DST_SRC
        else if 0xa0 \<le> i \<and> i \<le> 0xaf \<or> 0xf0 \<le> i then T_BRNCHSC
        else if i = 0x12 then T_BRNCHMISC
        else if i = 0x32 then T_OPLESS
        else T_INVLD),
      type4_instr_lookup = (\<lambda>i.
        if i = 0 then I_MSR else if i = 1 then I_BX else if i = 2 then I_BXJ
        else if i = 3 then I_BLX else if i = 5 then I_QSUB else if i = 7 then I_BKPT
        else I_INVLD),
      type_opless_instr_lookup = (\<lambda>i. if i = 0 then I_NOP else I_INVLD),
      type_shift_instr_lookup = (\<lambda>i.
        if i = 0 \<or> i = 1 then I_LSL
        else if i = 2 \<or> i = 3 then I_Other 1
        else if i = 4 \<or> i = 5 then I_Other 2
        else if i = 6 \<or> i = 7 then I_ROR
        else I_INVLD),
      PC = 15, instr_zero = I_INVLD, enctype_zero = T_INVLD\<rparr>"

section \<open>Auxiliary facts\<close>

lemma word_lt4: "(x::u32) < 4 \<Longrightarrow> x = 0 \<or> x = 1 \<or> x = 2 \<or> x = 3"
proof -
  assume "x < 4"
  then have "unat x < 4" by (simp add: word_less_nat_alt)
  then have "unat x = 0 \<or> unat x = 1 \<or> unat x = 2 \<or> unat x = 3" by arith
  then show ?thesis by (auto simp: word_unat_eq_iff)
qed

lemma and_15_cases: "(x::u32) AND 15 \<noteq> 15 \<Longrightarrow> x AND 15 \<le> 14"
proof -
  assume ne: "x AND 15 \<noteq> 15"
  have "x AND 15 \<le> 15" by (rule word_and_le1)
  then have "unat (x AND 15) \<le> 15" by (simp add: word_le_nat_alt)
  moreover from ne have "unat (x AND 15) \<noteq> 15" by (simp add: word_unat_eq_iff)
  ultimately have "unat (x AND 15) \<le> 14" by arith
  then show ?thesis by (simp add: word_le_nat_alt)
qed

lemma disassemble_unfold:
  "armv7_disassemble tbl d w =
     (if drop_bit 28 w AND 15 = 15 then (- 1, (darm_zero tbl)\<lparr>cond := 15, d_w := w\<rparr>)
      else if fst (armv7_disas_cond tbl ((darm_zero tbl)\<lparr>cond := drop_bit 28 w AND 15, d_w := w\<rparr>) w) < 0
      then armv7_disas_cond tbl ((darm_zero tbl)\<lparr>cond := drop_bit 28 w AND 15, d_w := w\<rparr>) w
      else (0, snd (armv7_disas_cond tbl ((darm_zero tbl)\<lparr>cond := drop_bit 28 w AND 15, d_w := w\<rparr>) w)))"
  by (simp add: armv7_disassemble_def Let_def case_prod_beta)

lemma condition_index_loop_None:
  "condition_index_loop s cs i = None \<longleftrightarrow> s \<notin> mnemonic_extension ` set cs"
  by (induction cs arbitrary: i) auto

lemma condition_index_empty: "armv7_condition_index (Some '''') = Some 14"
  by (simp add: armv7_condition_index_def)

lemma condition_index_unknown:
  "s \<noteq> [] \<Longrightarrow> s \<notin> mnemonic_extension ` set g_condition_codes \<Longrightarrow>
   armv7_condition_index (Some s) = None"
  by (simp add: armv7_condition_index_def condition_index_loop_None)

subsection \<open>What each case leaves of the record\<close>

text \<open>
  No case writes the condition field; a case that fails returns \<open>- 1\<close> and has written
  the instruction identity only.
\<close>

lemma ARITH_SHIFT_frame:
  "fst (case_T_ARITH_SHIFT d w) = 0 \<and> cond (snd (case_T_ARITH_SHIFT d w)) = cond d"
  by (simp add: case_T_ARITH_SHIFT_def Let_def)

lemma ARITH_IMM_frame:
  "fst (case_T_ARITH_IMM tbl d w) = 0 \<and> cond (snd (case_T_ARITH_IMM tbl d w)) = cond d"
  by (simp add: case_T_ARITH_IMM_def Let_def)

lemma BRNCHSC_frame:
  "fst (case_T_BRNCHSC d w) = 0 \<and> cond (snd (case_T_BRNCHSC d w)) = cond d"
  by (simp add: case_T_BRNCHSC_def Let_def)

lemma BRNCHMISC_frame:
  "cond (snd (case_T_BRNCHMISC tbl d w)) = cond d \<and>
   (fst (case_T_BRNCHMISC tbl d w) = 0 \<or>
    fst (case_T_BRNCHMISC tbl d w) = - 1 \<and>
    snd (case_T_BRNCHMISC tbl d w) = d\<lparr>instr := instr (snd (case_T_BRNCHMISC tbl d w))\<rparr>)"
  by (simp add: case_T_BRNCHMISC_def Let_def split: armv7_instr_t.split)

lemma MOV_IMM_frame:
  "fst (case_T_MOV_IMM d w) = 0 \<and> cond (snd (case_T_MOV_IMM d w)) = cond d"
  by (simp add: case_T_MOV_IMM_def Let_def)

lemma CMP_OP_frame:
  "fst (case_T_CMP_OP d w) = 0 \<and> cond (snd (case_T_CMP_OP d w)) = cond d"
  by (simp add: case_T_CMP_OP_def Let_def)

lemma CMP_IMM_frame:
  "fst (case_T_CMP_IMM d w) = 0 \<and> cond (snd (case_T_CMP_IMM d w)) = cond d"
  by (simp add: case_T_CMP_IMM_def Let_def)

lemma OPLESS_frame:
  "cond (snd (case_T_OPLESS tbl d w)) = cond d \<and>
   (fst (case_T_OPLESS tbl d w) = 0 \<or>
    fst (case_T_OPLESS tbl d w) = - 1 \<and>
    snd (case_T_OPLESS tbl d w) = d\<lparr>instr := instr (snd (case_T_OPLESS tbl d w))\<rparr>)"
  by (simp add: case_T_OPLESS_def Let_def)

lemma DST_SRC_frame:
  "cond (snd (case_T_DST_SRC tbl d w)) = cond d \<and>
   (fst (case_T_DST_SRC tbl d w) = 0 \<or>
    fst (case_T_DST_SRC tbl d w) = - 1 \<and>
    snd (case_T_DST_SRC tbl d w) = d\<lparr>instr := instr (snd (case_T_DST_SRC tbl d w))\<rparr>)"
  by (simp add: case_T_DST_SRC_def Let_def)

lemma fail_frame_lift:
  assumes "fst r = 0 \<or> fst r = - 1 \<and> snd r = d1\<lparr>instr := instr (snd r)\<rparr>"
    and "d1 = d\<lparr>instr := a, instr_type := t\<rparr>"
  shows "fst r = 0 \<or> fst r = - 1 \<and> snd r = d\<lparr>instr := instr (snd r), instr_type := t\<rparr>"
proof (cases "fst r = 0")
  case True
  then show ?thesis by simp
next
  case False
  with assms(1) have ret: "fst r = - 1" and "snd r = d1\<lparr>instr := instr (snd r)\<rparr>"
    by simp_all
  then have "snd r = d\<lparr>instr := a, instr_type := t\<rparr>\<lparr>instr := instr (snd r)\<rparr>"
    unfolding assms(2) by simp
  also have "\<dots> = d\<lparr>instr := instr (snd r), instr_type := t\<rparr>"
    by simp
  finally show ?thesis using ret by simp
qed

lemma disas_cond_frame:
  "cond (snd (armv7_disas_cond tbl d w)) = cond d \<and>
   (fst (armv7_disas_cond tbl d w) = 0 \<or>
    fst (armv7_disas_cond tbl d w) = - 1 \<and>
    snd (armv7_disas_cond tbl d w) =
      d\<lparr>instr := instr (snd (armv7_disas_cond tbl d w)),
        instr_type := armv7_instr_types tbl (drop_bit 20 w AND 0xff)\<rparr>)"
proof -
  define t where "t = armv7_instr_types tbl (drop_bit 20 w AND 0xff)"
  define d1 where "d1 = d\<lparr>instr := armv7_instr_labels tbl (drop_bit 20 w AND 0xff),
    instr_type := t\<rparr>"
  have cd1: "cond d1 = cond d"
    by (simp add: d1_def)
  show ?thesis
  proof (cases t)
    case T_BRNCHMISC
    then have eq: "armv7_disas_cond tbl d w = case_T_BRNCHMISC tbl d1 w"
      by (simp add: armv7_disas_cond_def d1_def t_def)
    show ?thesis
      unfolding eq t_def [symmetric]
      using BRNCHMISC_frame [of tbl d1 w] cd1 fail_frame_lift [OF _ d1_def] by metis
  next
    case T_OPLESS
    then have eq: "armv7_disas_cond tbl d w = case_T_OPLESS tbl d1 w"
      by (simp add: armv7_disas_cond_def d1_def t_def)
    show ?thesis
      unfolding eq t_def [symmetric]
      using OPLESS_frame [of tbl d1 w] cd1 fail_frame_lift [OF _ d1_def] by metis
  next
    case T_DST_SRC
    then have eq: "armv7_disas_cond tbl d w = case_T_DST_SRC tbl d1 w"
      by (simp add: armv7_disas_cond_def d1_def t_def)
    show ?thesis
      unfolding eq t_def [symmetric]
      using DST_SRC_frame [of tbl d1 w] cd1 fail_frame_lift [OF _ d1_def] by metis
  qed (simp_all add: armv7_disas_cond_def t_def [symmetric] ARITH_SHIFT_frame ARITH_IMM_frame
         BRNCHSC_frame MOV_IMM_frame CMP_OP_frame CMP_IMM_frame)
qed

text \<open>The record that a failing case leaves, member by member.\<close>

lemma BRNCHMISC_fail:
  "fst (case_T_BRNCHMISC tbl d w) = 0 \<or>
   snd (case_T_BRNCHMISC tbl d w) = d\<lparr>instr := type4_instr_lookup tbl (drop_bit 4 w AND 15)\<rparr>"
  by (simp add: case_T_BRNCHMISC_def Let_def split: armv7_instr_t.split)

lemma OPLESS_fail:
  "fst (case_T_OPLESS tbl d w) = 0 \<or>
   snd (case_T_OPLESS tbl d w) = d\<lparr>instr := type_opless_instr_lookup tbl (w AND 7)\<rparr>"
  by (simp add: case_T_OPLESS_def Let_def)

lemma DST_SRC_fail:
  "fst (case_T_DST_SRC tbl d w) = 0 \<or>
   snd (case_T_DST_SRC tbl d w) = d\<lparr>instr := type_shift_instr_lookup tbl (drop_bit 4 w AND 15)\<rparr>"
  by (simp add: case_T_DST_SRC_def Let_def)

lemma disas_cond_fail_record:
  "fst (armv7_disas_cond tbl d w) = 0 \<or>
   snd (armv7_disas_cond tbl d w) =
     d\<lparr>instr :=
         (case armv7_instr_types tbl (drop_bit 20 w AND 0xff) of
            T_BRNCHMISC \<Rightarrow> type4_instr_lookup tbl (drop_bit 4 w AND 15)
          | T_OPLESS \<Rightarrow> type_opless_instr_lookup tbl (w AND 7)
          | T_DST_SRC \<Rightarrow> type_shift_instr_lookup tbl (drop_bit 4 w AND 15)
          | _ \<Rightarrow> armv7_instr_labels tbl (drop_bit 20 w AND 0xff)),
       instr_type := armv7_instr_types tbl (drop_bit 20 w AND 0xff)\<rparr>"
proof -
  define t where "t = armv7_instr_types tbl (drop_bit 20 w AND 0xff)"
  define d1 where "d1 = d\<lparr>instr := armv7_instr_labels tbl (drop_bit 20 w AND 0xff),
    instr_type := t\<rparr>"
  have upd: "d1\<lparr>instr := i\<rparr> = d\<lparr>instr := i, instr_type := t\<rparr>" for i
    by (simp add: d1_def)
  show ?thesis
  proof (cases t)
    case T_BRNCHMISC
    then have eq: "armv7_disas_cond tbl d w = case_T_BRNCHMISC tbl d1 w"
      by (simp add: armv7_disas_cond_def d1_def t_def)
    show ?thesis
      unfolding eq t_def [symmetric]
      using BRNCHMISC_fail [of tbl d1 w] by (simp add: T_BRNCHMISC upd)
  next
    case T_OPLESS
    then have eq: "armv7_disas_cond tbl d w = case_T_OPLESS tbl d1 w"
      by (simp add: armv7_disas_cond_def d1_def t_def)
    show ?thesis
      unfolding eq t_def [symmetric]
      using OPLESS_fail [of tbl d1 w] by (simp add: T_OPLESS upd)
  next
    case T_DST_SRC
    then have eq: "armv7_disas_cond tbl d w = case_T_DST_SRC tbl d1 w"
      by (simp add: armv7_disas_cond_def d1_def t_def)
    show ?thesis
      unfolding eq t_def [symmetric]
      using DST_SRC_fail [of tbl d1 w] by (simp add: T_DST_SRC upd)
  qed (simp_all add: armv7_disas_cond_def t_def [symmetric] ARITH_SHIFT_frame ARITH_IMM_frame
         BRNCHSC_frame MOV_IMM_frame CMP_OP_frame CMP_IMM_frame)
qed

subsection \<open>Bit fields and the branch displacement\<close>

lemma BITMSK_12_eq: "BITMSK_12 = 0xfff"
  by (simp add: BITMSK_12_def)

lemma BITMSK_24_eq: "BITMSK_24 = 0xffffff"
  by (simp add: BITMSK_24_def)

lemma bit_test_eq: "drop_bit n (w::u32) AND 1 \<noteq> 0 \<longleftrightarrow> bit w n"
  by (simp add: bit_word_iff_drop_bit_and and_one_eq)

lemma field24_bit23: "bit ((w::u32) AND 0xffffff) 23 \<longleftrightarrow> bit w 23"
proof -
  have "w AND 0xffffff = take_bit 24 w"
    by (simp add: take_bit_eq_mask mask_eq_exp_minus_1)
  then show ?thesis by (simp add: bit_take_bit_iff)
qed

lemma field24_bound: "uint ((w::u32) AND 0xffffff) < 2 ^ 24"
proof -
  have "w AND 0xffffff \<le> 0xffffff" by (rule word_and_le1)
  then have "uint (w AND 0xffffff) \<le> uint (0xffffff :: u32)" by (simp only: word_le_def)
  then show ?thesis by simp
qed

lemma branch_extend_sint:
  fixes w :: u32
  shows "sint (push_bit 2 ((w AND 0xffffff) OR 0xff000000)) = 4 * (uint (w AND 0xffffff) - 2 ^ 24)"
proof -
  define x where "x = w AND 0xffffff"
  define k where "k = 4 * (uint x - 2 ^ 24)"
  have lt: "uint x < 2 ^ 24" unfolding x_def by (rule field24_bound)
  have ge: "0 \<le> uint x" by simp
  have "x AND 0xff000000 = w AND (0xffffff AND 0xff000000)"
    unfolding x_def by (simp only: and.assoc)
  then have dis: "x AND 0xff000000 = 0" by simp
  have e1: "push_bit 2 y = y * 4" for y :: u32
    by (simp add: push_bit_eq_mult)
  have e2: "x OR 0xff000000 = x + 0xff000000"
    by (rule disjunctive_add_eq_or [OF dis, symmetric])
  have e3: "(x + 0xff000000) * 4 = word_of_int k"
    by (simp add: k_def)
  have "push_bit 2 (x OR 0xff000000) = (x OR 0xff000000) * 4"
    by (rule e1)
  also have "\<dots> = (x + 0xff000000) * 4"
    by (simp only: e2)
  also note e3
  finally have "sint (push_bit 2 (x OR 0xff000000)) = sint (word_of_int k :: u32)"
    by (rule arg_cong)
  also have "\<dots> = signed_take_bit 31 k"
    by (simp add: sint_sbintrunc')
  also have "\<dots> = k"
    using lt ge by (intro signed_take_bit_int_eq_self) (simp_all add: k_def)
  finally show ?thesis by (simp only: x_def k_def)
qed

lemma branch_scale_uint:
  fixes w :: u32
  shows "uint (push_bit 2 (w AND 0xffffff)) = 4 * uint (w AND 0xffffff)"
proof -
  define x where "x = w AND 0xffffff"
  have lt: "uint x < 2 ^ 24" unfolding x_def by (rule field24_bound)
  then have "uint x * uint (4 :: u32) < 2 ^ LENGTH(32)" by simp
  then have "uint (x * 4) = uint x * uint (4 :: u32)" by (simp only: uint_mult_lem)
  then have "uint (x * 4) = 4 * uint x" by simp
  moreover have "push_bit 2 x = x * 4" by (simp add: push_bit_eq_mult)
  ultimately have "uint (push_bit 2 x) = 4 * uint x" by (simp only:)
  then show ?thesis by (simp only: x_def)
qed

section \<open>Properties of the decoder\<close>

text \<open>
  C1. The reverse lookup returns the position of the matching table entry. The alias
  entries stand at positions 15 and 16, so \<^verbatim>\<open>"HS"\<close> yields 15 where \<^verbatim>\<open>"CS"\<close> yields 2,
  and \<^verbatim>\<open>"LO"\<close> yields 16 where \<^verbatim>\<open>"CC"\<close> yields 3: the aliases do not map to the
  condition-field value of the entries they are aliases of.
\<close>

theorem condition_index_alias_positions:
  "armv7_condition_index (Some ''HS'') = Some 15 \<and>
   armv7_condition_index (Some ''CS'') = Some 2 \<and>
   armv7_condition_index (Some ''LO'') = Some 16 \<and>
   armv7_condition_index (Some ''CC'') = Some 3"
  by (simp add: armv7_condition_index_def g_condition_codes_def)

text \<open>
  C2, in the form the code satisfies. A failing call returns \<open>- 1\<close>, and the caller's record has been
  overwritten. It holds the raw word and the condition field, and zero in every operand
  member. When the condition field is 15 the identity and the class are the zero
  enumerators left by \<^verbatim>\<open>memset\<close>. Otherwise the class is the table's class for bits
  27-20, and the identity is the one stored last: the sub-table identity in the classes
  \<open>T_BRNCHMISC\<close>, \<open>T_OPLESS\<close> and \<open>T_DST_SRC\<close>, the table's identity for bits 27-20 in
  every other class.
\<close>

theorem disassemble_failure_record:
  "fst (armv7_disassemble tbl d w) < 0 \<Longrightarrow>
   fst (armv7_disassemble tbl d w) = - 1 \<and>
   snd (armv7_disassemble tbl d w) =
     (darm_zero tbl)\<lparr>d_w := w, cond := drop_bit 28 w AND 15,
       instr :=
         (if drop_bit 28 w AND 15 = 15 then instr_zero tbl
          else case armv7_instr_types tbl (drop_bit 20 w AND 0xff) of
            T_BRNCHMISC \<Rightarrow> type4_instr_lookup tbl (drop_bit 4 w AND 15)
          | T_OPLESS \<Rightarrow> type_opless_instr_lookup tbl (w AND 7)
          | T_DST_SRC \<Rightarrow> type_shift_instr_lookup tbl (drop_bit 4 w AND 15)
          | _ \<Rightarrow> armv7_instr_labels tbl (drop_bit 20 w AND 0xff)),
       instr_type :=
         (if drop_bit 28 w AND 15 = 15 then enctype_zero tbl
          else armv7_instr_types tbl (drop_bit 20 w AND 0xff))\<rparr>"
proof -
  assume fail: "fst (armv7_disassemble tbl d w) < 0"
  define d0 where "d0 = (darm_zero tbl)\<lparr>cond := drop_bit 28 w AND 15, d_w := w\<rparr>"
  show ?thesis
  proof (cases "drop_bit 28 w AND 15 = 15")
    case True
    then show ?thesis by (simp add: disassemble_unfold darm_zero_def)
  next
    case False
    define r where "r = armv7_disas_cond tbl d0 w"
    define i where "i = (case armv7_instr_types tbl (drop_bit 20 w AND 0xff) of
            T_BRNCHMISC \<Rightarrow> type4_instr_lookup tbl (drop_bit 4 w AND 15)
          | T_OPLESS \<Rightarrow> type_opless_instr_lookup tbl (w AND 7)
          | T_DST_SRC \<Rightarrow> type_shift_instr_lookup tbl (drop_bit 4 w AND 15)
          | _ \<Rightarrow> armv7_instr_labels tbl (drop_bit 20 w AND 0xff))"
    from False have eq: "armv7_disassemble tbl d w = (if fst r < 0 then r else (0, snd r))"
      by (simp add: disassemble_unfold d0_def r_def)
    with fail have neg: "fst r < 0" and eq': "armv7_disassemble tbl d w = r"
      by (simp_all split: if_split_asm)
    from disas_cond_frame [of tbl d0 w] neg have ret: "fst r = - 1"
      unfolding r_def by auto
    from disas_cond_fail_record [of tbl d0 w] neg
    have "snd r = d0\<lparr>instr := i,
        instr_type := armv7_instr_types tbl (drop_bit 20 w AND 0xff)\<rparr>"
      unfolding r_def i_def by auto
    also have "\<dots> = (darm_zero tbl)\<lparr>d_w := w, cond := drop_bit 28 w AND 15,
       instr := i, instr_type := armv7_instr_types tbl (drop_bit 20 w AND 0xff)\<rparr>"
      by (simp add: d0_def)
    finally show ?thesis using ret eq' False unfolding i_def by simp
  qed
qed

theorem disassemble_failure_record_witness:
  "fst (armv7_disassemble example_tbl (darm_zero example_tbl) 0xE1A01092) < 0 \<and>
   snd (armv7_disassemble example_tbl (darm_zero example_tbl) 0xE1A01092) =
     (darm_zero example_tbl)\<lparr>d_w := 0xE1A01092, cond := 14, instr := I_INVLD,
       instr_type := T_DST_SRC\<rparr> \<and>
   fst (armv7_disassemble example_tbl (darm_zero example_tbl) 0xE1200050) < 0 \<and>
   snd (armv7_disassemble example_tbl (darm_zero example_tbl) 0xE1200050) =
     (darm_zero example_tbl)\<lparr>d_w := 0xE1200050, cond := 14, instr := I_QSUB,
       instr_type := T_BRNCHMISC\<rparr>"
proof -
  have a: "fst (armv7_disassemble example_tbl (darm_zero example_tbl) 0xE1A01092) < 0"
    by (simp add: armv7_disassemble_def armv7_disas_cond_def case_T_DST_SRC_def example_tbl_def
        darm_zero_def)
  have b: "fst (armv7_disassemble example_tbl (darm_zero example_tbl) 0xE1200050) < 0"
    by (simp add: armv7_disassemble_def armv7_disas_cond_def case_T_BRNCHMISC_def example_tbl_def
        darm_zero_def)
  from disassemble_failure_record [OF a] disassemble_failure_record [OF b] a b
  show ?thesis by (simp add: example_tbl_def)
qed

text \<open>
  C2 as stated does not hold: decoding the word \<open>0xF0000000\<close> into a cleared
  record fails, and the record then carries the condition field 15 and the raw word.
\<close>

theorem disassemble_failure_exposes_fields:
  "fst (armv7_disassemble example_tbl (darm_zero example_tbl) 0xF0000000) = - 1 \<and>
   snd (armv7_disassemble example_tbl (darm_zero example_tbl) 0xF0000000) \<noteq> darm_zero example_tbl \<and>
   cond (snd (armv7_disassemble example_tbl (darm_zero example_tbl) 0xF0000000)) = 15 \<and>
   d_w (snd (armv7_disassemble example_tbl (darm_zero example_tbl) 0xF0000000)) = 0xF0000000"
  by (simp add: armv7_disassemble_def darm_zero_def)

text \<open>
  C3. A word of the arithmetic-with-immediate class always decodes. If the table identity
  is add or subtract, bit 20 is clear and bits 19-16 are the index of the program
  counter, the identity becomes \<open>I_ADR\<close>, the base register 0 and \<^verbatim>\<open>add\<close> bit 23 of the
  word; otherwise the table identity and bits 19-16 as base register are kept and
  \<^verbatim>\<open>add\<close> is not written. The immediate is bits 11-0 in both cases.
\<close>

theorem arith_imm_adr_rewrite:
  assumes "armv7_instr_types tbl (drop_bit 20 w AND 0xff) = T_ARITH_IMM"
  shows "fst (armv7_disas_cond tbl d w) = 0 \<and>
    ((armv7_instr_labels tbl (drop_bit 20 w AND 0xff) = I_ADD \<or>
      armv7_instr_labels tbl (drop_bit 20 w AND 0xff) = I_SUB) \<and>
     \<not> bit w 20 \<and> drop_bit 16 w AND 15 = PC tbl \<longrightarrow>
       instr (snd (armv7_disas_cond tbl d w)) = I_ADR \<and>
       Rn (snd (armv7_disas_cond tbl d w)) = 0 \<and>
       d_add (snd (armv7_disas_cond tbl d w)) = drop_bit 23 w AND 1 \<and>
       imm (snd (armv7_disas_cond tbl d w)) = w AND 0xfff) \<and>
    (\<not> ((armv7_instr_labels tbl (drop_bit 20 w AND 0xff) = I_ADD \<or>
      armv7_instr_labels tbl (drop_bit 20 w AND 0xff) = I_SUB) \<and>
     \<not> bit w 20 \<and> drop_bit 16 w AND 15 = PC tbl) \<longrightarrow>
       instr (snd (armv7_disas_cond tbl d w)) = armv7_instr_labels tbl (drop_bit 20 w AND 0xff) \<and>
       Rn (snd (armv7_disas_cond tbl d w)) = drop_bit 16 w AND 15 \<and>
       d_add (snd (armv7_disas_cond tbl d w)) = d_add d \<and>
       imm (snd (armv7_disas_cond tbl d w)) = w AND 0xfff)"
proof -
  have S: "drop_bit 20 w AND 1 = 0 \<longleftrightarrow> \<not> bit w 20"
    using bit_test_eq [of 20 w] by blast
  from assms have eq: "armv7_disas_cond tbl d w =
    case_T_ARITH_IMM tbl (d\<lparr>instr := armv7_instr_labels tbl (drop_bit 20 w AND 0xff),
      instr_type := T_ARITH_IMM\<rparr>) w"
    by (simp add: armv7_disas_cond_def)
  show ?thesis
    unfolding eq by (simp add: case_T_ARITH_IMM_def Let_def BITMSK_12_eq S)
qed

theorem arith_imm_adr_rewrite_witness:
  "armv7_instr_types example_tbl (drop_bit 20 0xE28F1004 AND 0xff) = T_ARITH_IMM \<and>
   armv7_instr_labels example_tbl (drop_bit 20 0xE28F1004 AND 0xff) = I_ADD \<and>
   \<not> bit (0xE28F1004 :: u32) 20 \<and> drop_bit 16 0xE28F1004 AND 15 = PC example_tbl \<and>
   instr (snd (armv7_disas_cond example_tbl (darm_zero example_tbl) 0xE28F1004)) = I_ADR \<and>
   Rn (snd (armv7_disas_cond example_tbl (darm_zero example_tbl) 0xE28F1004)) = 0 \<and>
   d_add (snd (armv7_disas_cond example_tbl (darm_zero example_tbl) 0xE28F1004)) = 1 \<and>
   armv7_instr_types example_tbl (drop_bit 20 0xE2811004 AND 0xff) = T_ARITH_IMM \<and>
   drop_bit 16 0xE2811004 AND 15 \<noteq> PC example_tbl \<and>
   instr (snd (armv7_disas_cond example_tbl (darm_zero example_tbl) 0xE2811004)) = I_ADD \<and>
   Rn (snd (armv7_disas_cond example_tbl (darm_zero example_tbl) 0xE2811004)) = 1 \<and>
   imm (snd (armv7_disas_cond example_tbl (darm_zero example_tbl) 0xE2811004)) = 4"
proof -
  have t1: "armv7_instr_types example_tbl (drop_bit 20 0xE28F1004 AND 0xff) = T_ARITH_IMM"
    by (simp add: example_tbl_def)
  have t2: "armv7_instr_types example_tbl (drop_bit 20 0xE2811004 AND 0xff) = T_ARITH_IMM"
    by (simp add: example_tbl_def)
  have l1: "armv7_instr_labels example_tbl (drop_bit 20 0xE28F1004 AND 0xff) = I_ADD"
    by (simp add: example_tbl_def)
  have b1: "\<not> bit (0xE28F1004 :: u32) 20"
    by (simp add: bit_word_iff_drop_bit_and)
  have p1: "drop_bit 16 0xE28F1004 AND 15 = PC example_tbl"
    by (simp add: example_tbl_def)
  have p2: "drop_bit 16 0xE2811004 AND 15 \<noteq> PC example_tbl"
    by (simp add: example_tbl_def)
  have v1: "drop_bit 23 (0xE28F1004 :: u32) AND 1 = 1" by simp
  have v2: "drop_bit 16 (0xE2811004 :: u32) AND 15 = 1" by simp
  have v3: "(0xE2811004 :: u32) AND 0xfff = 4" by simp
  have l2: "armv7_instr_labels example_tbl (drop_bit 20 0xE2811004 AND 0xff) = I_ADD"
    by (simp add: example_tbl_def)
  from arith_imm_adr_rewrite [OF t1, of "darm_zero example_tbl"]
    arith_imm_adr_rewrite [OF t2, of "darm_zero example_tbl"]
    t1 t2 l1 l2 b1 p1 p2 v1 v2 v3
  show ?thesis by simp
qed

text \<open>
  C4. A word of the branch class always decodes. If the table identity is not the
  supervisor call and bit 23 is set, the immediate is the 24-bit field with the top
  eight bits set, shifted left by 2: read as a signed number, four times the field minus
  \<open>2 ^ 24\<close>, negative and a multiple of 4. If bit 23 is clear the immediate is four times
  the field. For the supervisor call the immediate is the 24-bit field itself.
\<close>

theorem branch_immediate:
  assumes "armv7_instr_types tbl (drop_bit 20 w AND 0xff) = T_BRNCHSC"
  shows "fst (armv7_disas_cond tbl d w) = 0 \<and>
    (armv7_instr_labels tbl (drop_bit 20 w AND 0xff) \<noteq> I_SVC \<and> bit w 23 \<longrightarrow>
       imm (snd (armv7_disas_cond tbl d w)) = push_bit 2 ((w AND 0xffffff) OR 0xff000000) \<and>
       sint (imm (snd (armv7_disas_cond tbl d w))) = 4 * (uint (w AND 0xffffff) - 2 ^ 24) \<and>
       sint (imm (snd (armv7_disas_cond tbl d w))) < 0 \<and>
       4 dvd sint (imm (snd (armv7_disas_cond tbl d w)))) \<and>
    (armv7_instr_labels tbl (drop_bit 20 w AND 0xff) \<noteq> I_SVC \<and> \<not> bit w 23 \<longrightarrow>
       imm (snd (armv7_disas_cond tbl d w)) = push_bit 2 (w AND 0xffffff) \<and>
       uint (imm (snd (armv7_disas_cond tbl d w))) = 4 * uint (w AND 0xffffff)) \<and>
    (armv7_instr_labels tbl (drop_bit 20 w AND 0xff) = I_SVC \<longrightarrow>
       imm (snd (armv7_disas_cond tbl d w)) = w AND 0xffffff)"
proof -
  define d1 where "d1 = d\<lparr>instr := armv7_instr_labels tbl (drop_bit 20 w AND 0xff),
      instr_type := T_BRNCHSC\<rparr>"
  define r where "r = imm (snd (armv7_disas_cond tbl d w))"
  from assms have eq: "armv7_disas_cond tbl d w = case_T_BRNCHSC d1 w"
    by (simp add: armv7_disas_cond_def d1_def)
  have lab: "instr d1 = armv7_instr_labels tbl (drop_bit 20 w AND 0xff)"
    by (simp add: d1_def)
  have test: "drop_bit 23 (w AND 0xffffff) AND 1 \<noteq> 0 \<longleftrightarrow> bit w 23"
    by (simp only: bit_test_eq field24_bit23)
  have ret: "fst (armv7_disas_cond tbl d w) = 0"
    unfolding eq by (simp add: case_T_BRNCHSC_def Let_def)
  have neg: "r = push_bit 2 ((w AND 0xffffff) OR 0xff000000)"
    if "instr d1 \<noteq> I_SVC" "bit w 23"
    unfolding r_def eq using that test by (simp add: case_T_BRNCHSC_def Let_def BITMSK_24_eq)
  have pos: "r = push_bit 2 (w AND 0xffffff)"
    if "instr d1 \<noteq> I_SVC" "\<not> bit w 23"
    unfolding r_def eq using that test by (simp add: case_T_BRNCHSC_def Let_def BITMSK_24_eq)
  have svc: "r = w AND 0xffffff" if "instr d1 = I_SVC"
    unfolding r_def eq using that by (simp add: case_T_BRNCHSC_def Let_def BITMSK_24_eq)
  have neg_sint: "sint r = 4 * (uint (w AND 0xffffff) - 2 ^ 24)"
    if "instr d1 \<noteq> I_SVC" "bit w 23"
    by (simp only: neg [OF that] branch_extend_sint)
  have neg_lt: "sint r < 0" if "instr d1 \<noteq> I_SVC" "bit w 23"
    using field24_bound [of w] by (simp only: neg_sint [OF that]) simp
  have neg_dvd: "4 dvd sint r" if "instr d1 \<noteq> I_SVC" "bit w 23"
    by (simp only: neg_sint [OF that]) simp
  have pos_uint: "uint r = 4 * uint (w AND 0xffffff)"
    if "instr d1 \<noteq> I_SVC" "\<not> bit w 23"
    by (simp only: pos [OF that] branch_scale_uint)
  show ?thesis
    unfolding r_def [symmetric] lab [symmetric]
    using ret neg neg_sint neg_lt neg_dvd pos pos_uint svc by blast
qed

theorem branch_immediate_witness:
  "armv7_instr_types example_tbl (drop_bit 20 0xEAFFFFFE AND 0xff) = T_BRNCHSC \<and>
   armv7_instr_labels example_tbl (drop_bit 20 0xEAFFFFFE AND 0xff) \<noteq> I_SVC \<and>
   bit (0xEAFFFFFE :: u32) 23 \<and>
   sint (imm (snd (armv7_disas_cond example_tbl (darm_zero example_tbl) 0xEAFFFFFE))) = - 8 \<and>
   armv7_instr_types example_tbl (drop_bit 20 0xEA000002 AND 0xff) = T_BRNCHSC \<and>
   armv7_instr_labels example_tbl (drop_bit 20 0xEA000002 AND 0xff) \<noteq> I_SVC \<and>
   \<not> bit (0xEA000002 :: u32) 23 \<and>
   uint (imm (snd (armv7_disas_cond example_tbl (darm_zero example_tbl) 0xEA000002))) = 8 \<and>
   armv7_instr_types example_tbl (drop_bit 20 0xEF800001 AND 0xff) = T_BRNCHSC \<and>
   armv7_instr_labels example_tbl (drop_bit 20 0xEF800001 AND 0xff) = I_SVC \<and>
   imm (snd (armv7_disas_cond example_tbl (darm_zero example_tbl) 0xEF800001)) = 0x800001"
proof -
  have t1: "armv7_instr_types example_tbl (drop_bit 20 0xEAFFFFFE AND 0xff) = T_BRNCHSC"
    by (simp add: example_tbl_def)
  have t2: "armv7_instr_types example_tbl (drop_bit 20 0xEA000002 AND 0xff) = T_BRNCHSC"
    by (simp add: example_tbl_def)
  have t3: "armv7_instr_types example_tbl (drop_bit 20 0xEF800001 AND 0xff) = T_BRNCHSC"
    by (simp add: example_tbl_def)
  have l1: "armv7_instr_labels example_tbl (drop_bit 20 0xEAFFFFFE AND 0xff) \<noteq> I_SVC"
    by (simp add: example_tbl_def)
  have l2: "armv7_instr_labels example_tbl (drop_bit 20 0xEA000002 AND 0xff) \<noteq> I_SVC"
    by (simp add: example_tbl_def)
  have l3: "armv7_instr_labels example_tbl (drop_bit 20 0xEF800001 AND 0xff) = I_SVC"
    by (simp add: example_tbl_def)
  have b1: "bit (0xEAFFFFFE :: u32) 23"
    by (simp add: bit_word_iff_drop_bit_and)
  have b2: "\<not> bit (0xEA000002 :: u32) 23"
    by (simp add: bit_word_iff_drop_bit_and)
  have v1: "4 * (uint ((0xEAFFFFFE :: u32) AND 0xffffff) - 2 ^ 24) = - 8" by simp
  have v2: "4 * uint ((0xEA000002 :: u32) AND 0xffffff) = 8" by simp
  have v3: "(0xEF800001 :: u32) AND 0xffffff = 0x800001" by simp
  from branch_immediate [OF t1, of "darm_zero example_tbl"] l1 b1 v1
  have r1: "sint (imm (snd (armv7_disas_cond example_tbl (darm_zero example_tbl) 0xEAFFFFFE))) = - 8"
    by simp
  from branch_immediate [OF t2, of "darm_zero example_tbl"] l2 b2 v2
  have r2: "uint (imm (snd (armv7_disas_cond example_tbl (darm_zero example_tbl) 0xEA000002))) = 8"
    by simp
  from branch_immediate [OF t3, of "darm_zero example_tbl"] l3 v3
  have r3: "imm (snd (armv7_disas_cond example_tbl (darm_zero example_tbl) 0xEF800001)) = 0x800001"
    by simp
  from t1 t2 t3 l1 l2 l3 b1 b2 r1 r2 r3 show ?thesis by simp
qed

text \<open>
  C5. For a word of the destination-source-shift class: a sub-table identity \<open>I_INVLD\<close>
  makes \<^verbatim>\<open>armv7_disas_cond\<close> and \<^verbatim>\<open>armv7_disassemble\<close> return \<open>- 1\<close>. With bit 4 clear, the
  identity \<open>I_LSL\<close> with shift type 0 and shift amount 0 becomes \<open>I_MOV\<close>, and \<open>I_NOP\<close>
  when the destination register equals the operand register; the identity \<open>I_ROR\<close>
  with shift type 3 and shift amount 0 becomes \<open>I_RRX\<close>.
\<close>

theorem dst_src_alias_rewrite:
  assumes "armv7_instr_types tbl (drop_bit 20 w AND 0xff) = T_DST_SRC"
  shows "(type_shift_instr_lookup tbl (drop_bit 4 w AND 15) = I_INVLD \<longrightarrow>
       fst (armv7_disas_cond tbl d w) = - 1 \<and> fst (armv7_disassemble tbl d w) = - 1) \<and>
    (\<not> bit w 4 \<and> type_shift_instr_lookup tbl (drop_bit 4 w AND 15) = I_LSL \<and>
     drop_bit 5 w AND 3 = 0 \<and> drop_bit 7 w AND 31 = 0 \<longrightarrow>
       fst (armv7_disas_cond tbl d w) = 0 \<and>
       instr (snd (armv7_disas_cond tbl d w)) =
         (if drop_bit 12 w AND 15 = w AND 15 then I_NOP else I_MOV)) \<and>
    (\<not> bit w 4 \<and> type_shift_instr_lookup tbl (drop_bit 4 w AND 15) = I_ROR \<and>
     drop_bit 5 w AND 3 = 3 \<and> drop_bit 7 w AND 31 = 0 \<longrightarrow>
       fst (armv7_disas_cond tbl d w) = 0 \<and>
       instr (snd (armv7_disas_cond tbl d w)) = I_RRX)"
proof -
  have B: "drop_bit 4 w AND 1 \<noteq> 0 \<longleftrightarrow> bit w 4"
    by (rule bit_test_eq)
  have eq: "armv7_disas_cond tbl d' w =
    case_T_DST_SRC tbl (d'\<lparr>instr := armv7_instr_labels tbl (drop_bit 20 w AND 0xff),
      instr_type := T_DST_SRC\<rparr>) w" for d'
    using assms by (simp add: armv7_disas_cond_def)
  have inv: "fst (armv7_disas_cond tbl d' w) = - 1"
    if "type_shift_instr_lookup tbl (drop_bit 4 w AND 15) = I_INVLD" for d'
    unfolding eq using that by (simp add: case_T_DST_SRC_def Let_def)
  have inv': "fst (armv7_disassemble tbl d w) = - 1"
    if "type_shift_instr_lookup tbl (drop_bit 4 w AND 15) = I_INVLD"
    by (simp add: disassemble_unfold inv [OF that])
  have lsl: "fst (armv7_disas_cond tbl d w) = 0 \<and>
       instr (snd (armv7_disas_cond tbl d w)) =
         (if drop_bit 12 w AND 15 = w AND 15 then I_NOP else I_MOV)"
    if "\<not> bit w 4" "type_shift_instr_lookup tbl (drop_bit 4 w AND 15) = I_LSL"
      "drop_bit 5 w AND 3 = 0" "drop_bit 7 w AND 31 = 0"
    unfolding eq using that B by (simp add: case_T_DST_SRC_def Let_def)
  have ror: "fst (armv7_disas_cond tbl d w) = 0 \<and>
       instr (snd (armv7_disas_cond tbl d w)) = I_RRX"
    if "\<not> bit w 4" "type_shift_instr_lookup tbl (drop_bit 4 w AND 15) = I_ROR"
      "drop_bit 5 w AND 3 = 3" "drop_bit 7 w AND 31 = 0"
    unfolding eq using that B by (simp add: case_T_DST_SRC_def Let_def)
  from inv inv' lsl ror show ?thesis by blast
qed

theorem dst_src_alias_rewrite_witness:
  "armv7_instr_types example_tbl (drop_bit 20 0xE1A01092 AND 0xff) = T_DST_SRC \<and>
   type_shift_instr_lookup example_tbl (drop_bit 4 0xE1A01092 AND 15) = I_INVLD \<and>
   fst (armv7_disassemble example_tbl (darm_zero example_tbl) 0xE1A01092) = - 1 \<and>
   armv7_instr_types example_tbl (drop_bit 20 0xE1A01002 AND 0xff) = T_DST_SRC \<and>
   \<not> bit (0xE1A01002 :: u32) 4 \<and>
   type_shift_instr_lookup example_tbl (drop_bit 4 0xE1A01002 AND 15) = I_LSL \<and>
   drop_bit 5 (0xE1A01002 :: u32) AND 3 = 0 \<and> drop_bit 7 (0xE1A01002 :: u32) AND 31 = 0 \<and>
   instr (snd (armv7_disas_cond example_tbl (darm_zero example_tbl) 0xE1A01002)) = I_MOV \<and>
   instr (snd (armv7_disas_cond example_tbl (darm_zero example_tbl) 0xE1A00000)) = I_NOP \<and>
   armv7_instr_types example_tbl (drop_bit 20 0xE1A01062 AND 0xff) = T_DST_SRC \<and>
   \<not> bit (0xE1A01062 :: u32) 4 \<and>
   type_shift_instr_lookup example_tbl (drop_bit 4 0xE1A01062 AND 15) = I_ROR \<and>
   drop_bit 5 (0xE1A01062 :: u32) AND 3 = 3 \<and> drop_bit 7 (0xE1A01062 :: u32) AND 31 = 0 \<and>
   instr (snd (armv7_disas_cond example_tbl (darm_zero example_tbl) 0xE1A01062)) = I_RRX"
proof -
  have t1: "armv7_instr_types example_tbl (drop_bit 20 0xE1A01092 AND 0xff) = T_DST_SRC"
    by (simp add: example_tbl_def)
  have t2: "armv7_instr_types example_tbl (drop_bit 20 0xE1A01002 AND 0xff) = T_DST_SRC"
    by (simp add: example_tbl_def)
  have t3: "armv7_instr_types example_tbl (drop_bit 20 0xE1A00000 AND 0xff) = T_DST_SRC"
    by (simp add: example_tbl_def)
  have t4: "armv7_instr_types example_tbl (drop_bit 20 0xE1A01062 AND 0xff) = T_DST_SRC"
    by (simp add: example_tbl_def)
  have s1: "type_shift_instr_lookup example_tbl (drop_bit 4 0xE1A01092 AND 15) = I_INVLD"
    by (simp add: example_tbl_def)
  have s2: "type_shift_instr_lookup example_tbl (drop_bit 4 0xE1A01002 AND 15) = I_LSL"
    by (simp add: example_tbl_def)
  have s3: "type_shift_instr_lookup example_tbl (drop_bit 4 0xE1A00000 AND 15) = I_LSL"
    by (simp add: example_tbl_def)
  have s4: "type_shift_instr_lookup example_tbl (drop_bit 4 0xE1A01062 AND 15) = I_ROR"
    by (simp add: example_tbl_def)
  have b2: "\<not> bit (0xE1A01002 :: u32) 4" by (simp add: bit_word_iff_drop_bit_and)
  have b3: "\<not> bit (0xE1A00000 :: u32) 4" by (simp add: bit_word_iff_drop_bit_and)
  have b4: "\<not> bit (0xE1A01062 :: u32) 4" by (simp add: bit_word_iff_drop_bit_and)
  have f2: "drop_bit 5 (0xE1A01002 :: u32) AND 3 = 0" "drop_bit 7 (0xE1A01002 :: u32) AND 31 = 0"
    "drop_bit 12 (0xE1A01002 :: u32) AND 15 \<noteq> 0xE1A01002 AND 15"
    by simp_all
  have f3: "drop_bit 5 (0xE1A00000 :: u32) AND 3 = 0" "drop_bit 7 (0xE1A00000 :: u32) AND 31 = 0"
    "drop_bit 12 (0xE1A00000 :: u32) AND 15 = 0xE1A00000 AND 15"
    by simp_all
  have f4: "drop_bit 5 (0xE1A01062 :: u32) AND 3 = 3" "drop_bit 7 (0xE1A01062 :: u32) AND 31 = 0"
    by simp_all
  from dst_src_alias_rewrite [OF t1, of "darm_zero example_tbl"] s1
  have r1: "fst (armv7_disassemble example_tbl (darm_zero example_tbl) 0xE1A01092) = - 1"
    by blast
  from dst_src_alias_rewrite [OF t2, of "darm_zero example_tbl"] s2 b2 f2
  have r2: "instr (snd (armv7_disas_cond example_tbl (darm_zero example_tbl) 0xE1A01002)) = I_MOV"
    by simp
  from dst_src_alias_rewrite [OF t3, of "darm_zero example_tbl"] s3 b3 f3
  have r3: "instr (snd (armv7_disas_cond example_tbl (darm_zero example_tbl) 0xE1A00000)) = I_NOP"
    by simp
  from dst_src_alias_rewrite [OF t4, of "darm_zero example_tbl"] s4 b4 f4
  have r4: "instr (snd (armv7_disas_cond example_tbl (darm_zero example_tbl) 0xE1A01062)) = I_RRX"
    by blast
  from t1 t2 t4 s1 s2 s4 b2 b4 f2 f4 r1 r2 r3 r4 show ?thesis by blast
qed

text \<open>
  C6. A word whose condition field is 15 makes \<^verbatim>\<open>armv7_disassemble\<close> return \<open>- 1\<close>; when
  it returns 0 the condition field of the record is bits 31-28 of the word and at most 14.
  The function returns nothing but 0 and \<open>- 1\<close>.
\<close>

theorem disassemble_cond_15_fails:
  "(drop_bit 28 w AND 15 = 15 \<longrightarrow> fst (armv7_disassemble tbl d w) = - 1) \<and>
   (fst (armv7_disassemble tbl d w) = 0 \<longrightarrow>
      cond (snd (armv7_disassemble tbl d w)) = drop_bit 28 w AND 15 \<and>
      cond (snd (armv7_disassemble tbl d w)) \<le> 14) \<and>
   (fst (armv7_disassemble tbl d w) = 0 \<or> fst (armv7_disassemble tbl d w) = - 1)"
proof -
  define d0 where "d0 = (darm_zero tbl)\<lparr>cond := drop_bit 28 w AND 15, d_w := w\<rparr>"
  have c0: "cond d0 = drop_bit 28 w AND 15"
    by (simp add: d0_def)
  note fr = disas_cond_frame [of tbl d0 w]
  show ?thesis
  proof (cases "drop_bit 28 w AND 15 = 15")
    case True
    then show ?thesis by (simp add: disassemble_unfold)
  next
    case False
    then have "drop_bit 28 w AND 15 \<le> 14" by (rule and_15_cases)
    with False fr c0 show ?thesis
      unfolding disassemble_unfold d0_def [symmetric] by auto
  qed
qed

theorem disassemble_cond_15_fails_witness:
  "drop_bit 28 (0xF0000000 :: u32) AND 15 = 15 \<and>
   fst (armv7_disassemble example_tbl (darm_zero example_tbl) 0xF0000000) = - 1 \<and>
   fst (armv7_disassemble example_tbl (darm_zero example_tbl) 0xE320F000) = 0 \<and>
   cond (snd (armv7_disassemble example_tbl (darm_zero example_tbl) 0xE320F000)) = 14"
proof -
  have a: "drop_bit 28 (0xF0000000 :: u32) AND 15 = 15" by simp
  have b: "fst (armv7_disassemble example_tbl (darm_zero example_tbl) 0xE320F000) = 0"
    by (simp add: armv7_disassemble_def armv7_disas_cond_def case_T_OPLESS_def example_tbl_def darm_zero_def)
  have c: "drop_bit 28 (0xE320F000 :: u32) AND 15 = 14" by simp
  from a b c disassemble_cond_15_fails [of "0xF0000000" example_tbl "darm_zero example_tbl"]
    disassemble_cond_15_fails [of "0xE320F000" example_tbl "darm_zero example_tbl"]
  show ?thesis by simp
qed

text \<open>
  C7. \<^verbatim>\<open>armv7_shift_decode\<close>, by shift type and shift-register member: type 0 with
  register member 0 gives no label and amount 0; type 3 with register member 0 gives
  \<open>RRX\<close> and amount 0; types 1 and 2 with register member 0 give their label and amount
  32; every other combination gives the label of the type and the register member as
  amount. For a type below 4 the decoder always produces a result.
\<close>

theorem shift_decode_cases:
  "(shtype d = 0 \<and> Rs d = 0 \<longrightarrow> armv7_shift_decode d = Some (None, 0)) \<and>
   (shtype d = 3 \<and> Rs d = 0 \<longrightarrow> armv7_shift_decode d = Some (Some ''RRX'', 0)) \<and>
   (shtype d = 1 \<and> Rs d = 0 \<longrightarrow> armv7_shift_decode d = Some (Some ''LSR'', 32)) \<and>
   (shtype d = 2 \<and> Rs d = 0 \<longrightarrow> armv7_shift_decode d = Some (Some ''ASR'', 32)) \<and>
   (shtype d = 0 \<and> Rs d \<noteq> 0 \<longrightarrow> armv7_shift_decode d = Some (Some ''LSL'', Rs d)) \<and>
   (shtype d = 1 \<and> Rs d \<noteq> 0 \<longrightarrow> armv7_shift_decode d = Some (Some ''LSR'', Rs d)) \<and>
   (shtype d = 2 \<and> Rs d \<noteq> 0 \<longrightarrow> armv7_shift_decode d = Some (Some ''ASR'', Rs d)) \<and>
   (shtype d = 3 \<and> Rs d \<noteq> 0 \<longrightarrow> armv7_shift_decode d = Some (Some ''ROR'', Rs d)) \<and>
   (shtype d < 4 \<longrightarrow> armv7_shift_decode d \<noteq> None)"
  using word_lt4 [of "shtype d"]
  by (auto simp: armv7_shift_decode_def shift_types_def)

theorem shift_decode_cases_witness:
  "armv7_shift_decode ((darm_zero example_tbl)\<lparr>shtype := 0, Rs := 0\<rparr>) = Some (None, 0) \<and>
   armv7_shift_decode ((darm_zero example_tbl)\<lparr>shtype := 3, Rs := 0\<rparr>) = Some (Some ''RRX'', 0) \<and>
   armv7_shift_decode ((darm_zero example_tbl)\<lparr>shtype := 1, Rs := 0\<rparr>) = Some (Some ''LSR'', 32) \<and>
   armv7_shift_decode ((darm_zero example_tbl)\<lparr>shtype := 2, Rs := 0\<rparr>) = Some (Some ''ASR'', 32) \<and>
   armv7_shift_decode ((darm_zero example_tbl)\<lparr>shtype := 0, Rs := 7\<rparr>) = Some (Some ''LSL'', 7) \<and>
   armv7_shift_decode ((darm_zero example_tbl)\<lparr>shtype := 1, Rs := 7\<rparr>) = Some (Some ''LSR'', 7) \<and>
   armv7_shift_decode ((darm_zero example_tbl)\<lparr>shtype := 2, Rs := 7\<rparr>) = Some (Some ''ASR'', 7) \<and>
   armv7_shift_decode ((darm_zero example_tbl)\<lparr>shtype := 3, Rs := 5\<rparr>) = Some (Some ''ROR'', 5) \<and>
   (2 :: u32) < 4 \<and>
   armv7_shift_decode ((darm_zero example_tbl)\<lparr>shtype := 2, Rs := 7\<rparr>) \<noteq> None"
  using shift_decode_cases [of "(darm_zero example_tbl)\<lparr>shtype := 0, Rs := 0\<rparr>"]
    shift_decode_cases [of "(darm_zero example_tbl)\<lparr>shtype := 3, Rs := 0\<rparr>"]
    shift_decode_cases [of "(darm_zero example_tbl)\<lparr>shtype := 1, Rs := 0\<rparr>"]
    shift_decode_cases [of "(darm_zero example_tbl)\<lparr>shtype := 2, Rs := 0\<rparr>"]
    shift_decode_cases [of "(darm_zero example_tbl)\<lparr>shtype := 0, Rs := 7\<rparr>"]
    shift_decode_cases [of "(darm_zero example_tbl)\<lparr>shtype := 1, Rs := 7\<rparr>"]
    shift_decode_cases [of "(darm_zero example_tbl)\<lparr>shtype := 2, Rs := 7\<rparr>"]
    shift_decode_cases [of "(darm_zero example_tbl)\<lparr>shtype := 3, Rs := 5\<rparr>"]
  by simp

text \<open>
  C8. For a condition field from 0 to 14 \<^verbatim>\<open>armv7_condition_info\<close> succeeds and stores a
  non-empty integer meaning and a non-empty floating-point meaning; for the field 14 the
  returned suffix is empty when the omit flag is non-zero and \<open>AL\<close> when it is zero; for a
  field below 0 or above 14 it returns \<^verbatim>\<open>NULL\<close>.
\<close>

theorem condition_info_range:
  "(0 \<le> f \<and> f \<le> 14 \<longrightarrow>
      (\<exists>s mi mf. armv7_condition_info f True True omit = Some (s, Some mi, Some mf) \<and>
         mi \<noteq> [] \<and> mf \<noteq> []) \<and>
      armv7_condition_info f a b omit \<noteq> None) \<and>
   (omit \<noteq> 0 \<longrightarrow> (\<exists>mi mf. armv7_condition_info 14 a b omit = Some ('''', mi, mf))) \<and>
   (\<exists>mi mf. armv7_condition_info 14 a b 0 = Some (''AL'', mi, mf)) \<and>
   (f < 0 \<or> 14 < f \<longrightarrow> armv7_condition_info f a b omit = None)"
proof -
  have in_range: "(\<exists>s mi mf. armv7_condition_info f True True omit = Some (s, Some mi, Some mf) \<and>
         mi \<noteq> [] \<and> mf \<noteq> []) \<and> armv7_condition_info f a b omit \<noteq> None"
    if "0 \<le> f" "f \<le> 14"
  proof -
    from that have "f = 0 \<or> f = 1 \<or> f = 2 \<or> f = 3 \<or> f = 4 \<or> f = 5 \<or> f = 6 \<or> f = 7 \<or>
        f = 8 \<or> f = 9 \<or> f = 10 \<or> f = 11 \<or> f = 12 \<or> f = 13 \<or> f = 14"
      by arith
    then show ?thesis
      by (elim disjE) (simp_all add: armv7_condition_info_def g_condition_codes_def Let_def)
  qed
  have omit14: "\<exists>mi mf. armv7_condition_info 14 a b omit = Some ('''', mi, mf)" if "omit \<noteq> 0"
    using that by (simp add: armv7_condition_info_def Let_def)
  have keep14: "\<exists>mi mf. armv7_condition_info 14 a b 0 = Some (''AL'', mi, mf)"
    by (simp add: armv7_condition_info_def g_condition_codes_def Let_def)
  have out: "armv7_condition_info f a b omit = None" if "f < 0 \<or> 14 < f"
    using that by (auto simp: armv7_condition_info_def)
  from in_range omit14 keep14 out show ?thesis by blast
qed

theorem condition_info_range_witness:
  "(0::int) \<le> 3 \<and> (3::int) \<le> 14 \<and>
   armv7_condition_info 3 True True 1 = Some (''CC'', Some ''Carry Clear'', Some ''Less than'') \<and>
   (1::int) \<noteq> 0 \<and>
   armv7_condition_info 14 True True 1 =
     Some ('''', Some ''Always (unconditional)'', Some ''Always (unconditional)'') \<and>
   (14::int) < 15 \<and> armv7_condition_info 15 True True 1 = None"
  using condition_info_range [of 3 1 True True] condition_info_range [of 15 1 True True]
  by (simp add: armv7_condition_info_def g_condition_codes_def)

text \<open>
  C9. The result of \<^verbatim>\<open>armv7_disassemble\<close> on a word does not depend on the caller's
  record before the call; in particular decoding a word into the record left by the
  decoding of another word gives what decoding it into any other record gives.
\<close>

theorem disassemble_history_independent:
  "armv7_disassemble tbl d1 w = armv7_disassemble tbl d2 w \<and>
   armv7_disassemble tbl (snd (armv7_disassemble tbl d1 w')) w = armv7_disassemble tbl d2 w"
  by (simp add: armv7_disassemble_def)

text \<open>
  C10. Two records that agree on the shift type and on the shift-register member are
  decoded alike by \<^verbatim>\<open>armv7_shift_decode\<close>, whatever their other members hold; the
  amount it reports is the shift-register member, or 32 where that member is 0 and the
  type is 1 or 2.
\<close>

theorem shift_decode_depends_on_type_and_Rs:
  "(shtype d1 = shtype d2 \<and> Rs d1 = Rs d2 \<longrightarrow> armv7_shift_decode d1 = armv7_shift_decode d2) \<and>
   (armv7_shift_decode d1 = Some (l, a) \<longrightarrow>
      a = (if (shtype d1 = 1 \<or> shtype d1 = 2) \<and> Rs d1 = 0 then 32 else Rs d1))"
  by (auto simp: armv7_shift_decode_def split: if_split_asm)

theorem shift_decode_depends_on_type_and_Rs_witness:
  "shtype ((darm_zero example_tbl)\<lparr>shtype := 1, Rs := 9, shift := 4\<rparr>) =
     shtype ((darm_zero example_tbl)\<lparr>shtype := 1, Rs := 9, shift_is_reg := 1, imm := 77\<rparr>) \<and>
   Rs ((darm_zero example_tbl)\<lparr>shtype := 1, Rs := 9, shift := 4\<rparr>) =
     Rs ((darm_zero example_tbl)\<lparr>shtype := 1, Rs := 9, shift_is_reg := 1, imm := 77\<rparr>) \<and>
   armv7_shift_decode ((darm_zero example_tbl)\<lparr>shtype := 1, Rs := 9, shift := 4\<rparr>) =
     armv7_shift_decode ((darm_zero example_tbl)\<lparr>shtype := 1, Rs := 9, shift_is_reg := 1, imm := 77\<rparr>) \<and>
   armv7_shift_decode ((darm_zero example_tbl)\<lparr>shtype := 1, Rs := 9, shift := 4\<rparr>) =
     Some (Some ''LSR'', 9)"
  using shift_decode_depends_on_type_and_Rs
    [of "(darm_zero example_tbl)\<lparr>shtype := 1, Rs := 9, shift := 4\<rparr>"
        "(darm_zero example_tbl)\<lparr>shtype := 1, Rs := 9, shift_is_reg := 1, imm := 77\<rparr>"
        "Some ''LSR''" 9]
  by (simp add: armv7_shift_decode_def shift_types_def)

end
